theory Spec2Isabelle
  imports Complex_Main
begin

section \<open>Numbers, errors and sampling\<close>

text \<open>
  The beam engine computes with Python floats. They are modelled as \<^typ>\<open>real\<close>:
  every statement below is about the exact arithmetic the code writes down, and says
  nothing about the rounding of an operation, about overflow or about NaN. The one way
  the arithmetic of the source can fail is Python's true division, which raises
  \<open>ZeroDivisionError\<close> when the divisor is zero (for floats as for ints); that is kept
  as a branch of the model. The literals of the source are doubles exactly (\<open>0\<close>, \<open>2\<close>,
  \<open>500\<close>, \<open>1.0\<close>, \<open>10.0\<close>, ...), except the tolerance \<open>0.1\<close> of the quiz, which is
  modelled as the double Python reads it as.
\<close>

datatype error = ZeroDivisionError

definition truediv :: "real \<Rightarrow> real \<Rightarrow> error + real" where
  "truediv a b = (if b = 0 then Inl ZeroDivisionError else Inr (a / b))"

text \<open>
  \<open>np.linspace(start, stop, num)\<close>: \<open>num\<close> evenly spaced samples over the closed
  interval from \<open>start\<close> to \<open>stop\<close>, both end points included; sample \<open>i\<close> is
  \<open>start + i * step\<close> with \<open>step = (stop - start) / (num - 1)\<close>.
\<close>

definition linspace :: "real \<Rightarrow> real \<Rightarrow> nat \<Rightarrow> real list" where
  "linspace start stop num =
     (if num = 0 then []
      else if num = 1 then [start]
      else map (\<lambda>i. start + real i * ((stop - start) / real (num - 1))) [0..<num])"

text \<open>
  The sampling loop shared by the three pages: for every \<open>x\<close> of the coordinate array the
  body computes \<open>(V, M)\<close>, and the two values are appended to the two result lists.
\<close>

fun sample_loop :: "(real \<Rightarrow> real \<times> real) \<Rightarrow> real list \<Rightarrow> real list \<times> real list
    \<Rightarrow> real list \<times> real list" where
  "sample_loop body [] acc = acc"
| "sample_loop body (x # xs) (V_vals, M_vals) =
     (case body x of (V, M) \<Rightarrow> sample_loop body xs (V_vals @ [V], M_vals @ [M]))"


section \<open>app.py: class SimpleBeam\<close>

text \<open>A load is the dict \<open>{"type": "point", "P": P, "x": x}\<close>.\<close>

record load =
  load_type :: string
  load_P :: real
  load_x :: real

record SimpleBeam =
  length1 :: real
  loads :: "load list"

definition SimpleBeam_init :: "real \<Rightarrow> SimpleBeam" where
  "SimpleBeam_init len = \<lparr>length1 = len, loads = []\<rparr>"

definition add_point_load :: "real \<Rightarrow> real \<Rightarrow> SimpleBeam \<Rightarrow> SimpleBeam" where
  "add_point_load P x self =
     self\<lparr>loads := loads self @ [\<lparr>load_type = ''point'', load_P = P, load_x = x\<rparr>]\<rparr>"

text \<open>The loop of \<open>solve_reactions\<close> over the accumulators \<open>(sum_moment_A, total_load)\<close>.\<close>

fun reaction_loop :: "load list \<Rightarrow> real \<times> real \<Rightarrow> real \<times> real" where
  "reaction_loop [] acc = acc"
| "reaction_loop (l # ls) (sum_moment_A, total_load) =
     reaction_loop ls (sum_moment_A + load_P l * load_x l, total_load + load_P l)"

definition solve_reactions :: "SimpleBeam \<Rightarrow> error + real \<times> real" where
  "solve_reactions self =
     (case reaction_loop (loads self) (0, 0) of
        (sum_moment_A, total_load) \<Rightarrow>
          (case truediv sum_moment_A (length1 self) of
             Inl e \<Rightarrow> Inl e
           | Inr rb \<Rightarrow> Inr (total_load - rb, rb)))"

text \<open>The inner loop of \<open>calculate_internal_forces\<close> at the cut \<open>x\<close>, over \<open>(V, M)\<close>.\<close>

fun cut_loop :: "real \<Rightarrow> load list \<Rightarrow> real \<times> real \<Rightarrow> real \<times> real" where
  "cut_loop x [] acc = acc"
| "cut_loop x (l # ls) (V, M) =
     cut_loop x ls
       (if x > load_x l then (V - load_P l, M - load_P l * (x - load_x l)) else (V, M))"

definition cut_forces :: "SimpleBeam \<Rightarrow> real \<Rightarrow> real \<Rightarrow> real \<times> real" where
  "cut_forces self ra x = cut_loop x (loads self) (ra, ra * x)"

definition calculate_internal_forces ::
    "SimpleBeam \<Rightarrow> real \<Rightarrow> real \<Rightarrow> real list \<times> real list \<times> real list" where
  "calculate_internal_forces self ra rb =
     (let x_coords = linspace 0 (length1 self) 500
      in case sample_loop (cut_forces self ra) x_coords ([], []) of
           (shear_forces, bending_moments) \<Rightarrow> (x_coords, shear_forces, bending_moments))"


section \<open>pages/02: class BeamLevel2\<close>

record point_load_dict =
  pl_P :: real
  pl_x :: real

record udl_dict =
  udl_w :: real
  udl_start :: real
  udl_end :: real

record BeamLevel2 =
  length2 :: real
  point_load :: point_load_dict
  udl :: udl_dict

definition BeamLevel2_init :: "real \<Rightarrow> BeamLevel2" where
  "BeamLevel2_init len =
     \<lparr>length2 = len, point_load = \<lparr>pl_P = 0, pl_x = 0\<rparr>,
      udl = \<lparr>udl_w = 0, udl_start = 0, udl_end = 0\<rparr>\<rparr>"

definition set_loads :: "real \<Rightarrow> real \<Rightarrow> real \<Rightarrow> real \<Rightarrow> real \<Rightarrow> BeamLevel2 \<Rightarrow> BeamLevel2" where
  "set_loads P x_p w w_start w_end self =
     self\<lparr>point_load := \<lparr>pl_P = P, pl_x = x_p\<rparr>,
          udl := \<lparr>udl_w = w, udl_start = w_start, udl_end = w_end\<rparr>\<rparr>"

text \<open>Part A of \<open>solve_analysis\<close>: the two reactions.\<close>

definition reactions2 :: "BeamLevel2 \<Rightarrow> error + real \<times> real" where
  "reactions2 self =
     (let L = length2 self;
          moment_from_point = pl_P (point_load self) * pl_x (point_load self);
          udl_total_force = udl_w (udl self) * (udl_end (udl self) - udl_start (udl self));
          udl_center = (udl_start (udl self) + udl_end (udl self)) / 2;
          moment_from_udl = udl_total_force * udl_center
      in case truediv (moment_from_point + moment_from_udl) L of
           Inl e \<Rightarrow> Inl e
         | Inr rb \<Rightarrow> Inr ((pl_P (point_load self) + udl_total_force) - rb, rb))"

text \<open>Part B: the body of the loop over \<open>x_vals\<close>, first the point load, then the UDL.\<close>

definition cut_point2 :: "BeamLevel2 \<Rightarrow> real \<Rightarrow> real \<times> real \<Rightarrow> real \<times> real" where
  "cut_point2 self x vm =
     (case vm of (V, M) \<Rightarrow>
        if x > pl_x (point_load self)
        then (V - pl_P (point_load self),
              M - pl_P (point_load self) * (x - pl_x (point_load self)))
        else (V, M))"

definition cut_udl2 :: "BeamLevel2 \<Rightarrow> real \<Rightarrow> real \<times> real \<Rightarrow> real \<times> real" where
  "cut_udl2 self x vm =
     (case vm of (V, M) \<Rightarrow>
        if x > udl_start (udl self)
        then (let cover_len = min x (udl_end (udl self)) - udl_start (udl self)
              in if cover_len > 0
                 then (let force_segment = udl_w (udl self) * cover_len;
                           moment_arm = x - (udl_start (udl self) + cover_len / 2)
                       in (V - force_segment, M - force_segment * moment_arm))
                 else (V, M))
        else (V, M))"

definition cut_forces2 :: "BeamLevel2 \<Rightarrow> real \<Rightarrow> real \<Rightarrow> real \<times> real" where
  "cut_forces2 self ra x = cut_udl2 self x (cut_point2 self x (ra, ra * x))"

definition solve_analysis ::
    "BeamLevel2 \<Rightarrow> error + real \<times> real \<times> real list \<times> real list \<times> real list" where
  "solve_analysis self =
     (case reactions2 self of
        Inl e \<Rightarrow> Inl e
      | Inr (ra, rb) \<Rightarrow>
          (let x_vals = linspace 0 (length2 self) 500
           in case sample_loop (cut_forces2 self ra) x_vals ([], []) of
                (V_vals, M_vals) \<Rightarrow> Inr (ra, rb, x_vals, V_vals, M_vals)))"


section \<open>pages/03: the quiz\<close>

definition solve_beam :: "real \<Rightarrow> real \<Rightarrow> real \<Rightarrow> error + real \<times> real" where
  "solve_beam L P x =
     (case truediv (P * x) L of
        Inl e \<Rightarrow> Inl e
      | Inr rb \<Rightarrow> Inr (P - rb, rb))"

text \<open>The loop of \<open>plot_answer\<close>; the figure drawn from the two lists is not modelled.\<close>

definition cut_forces3 :: "real \<Rightarrow> real \<Rightarrow> real \<Rightarrow> real \<Rightarrow> real \<times> real" where
  "cut_forces3 P x ra val =
     (if val > x then (ra - P, ra * val - P * (val - x)) else (ra, ra * val))"

definition plot_answer ::
    "real \<Rightarrow> real \<Rightarrow> real \<Rightarrow> real \<Rightarrow> real \<Rightarrow> real list \<times> real list \<times> real list" where
  "plot_answer L P x ra rb =
     (let x_vals = linspace 0 L 500
      in case sample_loop (cut_forces3 P x ra) x_vals ([], []) of
           (V_vals, M_vals) \<Rightarrow> (x_vals, V_vals, M_vals))"

text \<open>The session state \<open>st.session_state.exam_data\<close>.\<close>

record exam_data =
  exam_L :: real
  exam_P :: real
  exam_x :: real
  has_generated :: bool

definition initial_exam_data :: exam_data where
  "initial_exam_data = \<lparr>exam_L = 10, exam_P = 100, exam_x = 5, has_generated = False\<rparr>"

text \<open>
  \<open>random.randint(a, b)\<close> returns an integer \<open>N\<close> with \<open>a \<le> N \<le> b\<close>; which one is
  not determined, so the draw is a relation between the bounds and the value drawn.
\<close>

definition randint :: "int \<Rightarrow> int \<Rightarrow> int \<Rightarrow> bool" where
  "randint a b n = (a \<le> n \<and> n \<le> b)"

text \<open>The dict stored by the button "new problem", from the three values drawn.\<close>

definition new_exam_data :: "int \<Rightarrow> int \<Rightarrow> int \<Rightarrow> exam_data" where
  "new_exam_data new_L new_P new_x =
     \<lparr>exam_L = of_int new_L, exam_P = of_int new_P * 1.0, exam_x = of_int new_x * 1.0,
      has_generated = True\<rparr>"

inductive generate :: "exam_data \<Rightarrow> exam_data \<Rightarrow> bool" where
  generateI: "randint 5 20 new_L \<Longrightarrow> randint 10 200 new_P \<Longrightarrow> randint 1 (new_L - 1) new_x
    \<Longrightarrow> generate old (new_exam_data new_L new_P new_x)"

code_pred generate .

text \<open>The session states a user can reach: the initial one, then any number of new problems.\<close>

inductive session :: "exam_data \<Rightarrow> bool" where
  session_init: "session initial_exam_data"
| session_new: "session old \<Longrightarrow> generate old new \<Longrightarrow> session new"

text \<open>
  The button "submit": the true reactions from \<open>solve_beam\<close>, then the two judgements
  \<open>(is_correct_ra, is_correct_rb)\<close>, each \<open>abs(user - true) < 0.1\<close>; the answer is
  accepted when both hold. The literal \<open>0.1\<close> is not the number \<open>1 / 10\<close>, which no
  double is: Python reads it as the nearest double, \<open>3602879701896397 / 2 ^ 55\<close>, a
  little more than \<open>1 / 10\<close>, and the comparison is with that number.
\<close>

definition tolerance :: real where
  "tolerance = 3602879701896397 / 36028797018963968"

definition is_correct :: "real \<Rightarrow> real \<Rightarrow> bool" where
  "is_correct user_r true_r = (\<bar>user_r - true_r\<bar> < tolerance)"

definition submit :: "exam_data \<Rightarrow> real \<Rightarrow> real \<Rightarrow> error + bool \<times> bool" where
  "submit cur user_ra user_rb =
     (case solve_beam (exam_L cur) (exam_P cur) (exam_x cur) of
        Inl e \<Rightarrow> Inl e
      | Inr (true_ra, true_rb) \<Rightarrow>
          Inr (is_correct user_ra true_ra, is_correct user_rb true_rb))"

definition accepted :: "bool \<times> bool \<Rightarrow> bool" where
  "accepted r = (case r of (is_correct_ra, is_correct_rb) \<Rightarrow> is_correct_ra \<and> is_correct_rb)"


section \<open>The statics the reactions are compared with\<close>

text \<open>
  These follow the specification's words, not the code: the total downward load and the
  moment of the loads about a point \<open>a\<close> of the beam axis (a load \<open>P\<close> at \<open>x\<close> has the
  arm \<open>x - a\<close>). A UDL is the force \<open>w * (e - s)\<close> at the centroid \<open>(s + e) / 2\<close>.
\<close>

definition total_load :: "SimpleBeam \<Rightarrow> real" where
  "total_load b = (\<Sum>l\<leftarrow>loads b. load_P l)"

definition load_moment_about :: "SimpleBeam \<Rightarrow> real \<Rightarrow> real" where
  "load_moment_about b a = (\<Sum>l\<leftarrow>loads b. load_P l * (load_x l - a))"

definition udl_force :: "udl_dict \<Rightarrow> real" where
  "udl_force u = udl_w u * (udl_end u - udl_start u)"

definition udl_centroid :: "udl_dict \<Rightarrow> real" where
  "udl_centroid u = (udl_start u + udl_end u) / 2"

definition total_load2 :: "BeamLevel2 \<Rightarrow> real" where
  "total_load2 b = pl_P (point_load b) + udl_force (udl b)"

definition load_moment_about2 :: "BeamLevel2 \<Rightarrow> real \<Rightarrow> real" where
  "load_moment_about2 b a =
     pl_P (point_load b) * (pl_x (point_load b) - a)
     + udl_force (udl b) * (udl_centroid (udl b) - a)"


section \<open>Method calls as steps on the object\<close>

text \<open>
  A method of a Python object can assign to the attributes of \<open>self\<close>, to the entries
  of its dicts and to its list. Here the three solving methods are written statement by
  statement as steps on a frame that holds the object together with the locals: every
  assignment of the source is one update of the frame, \<open>self.loads\<close>, \<open>self.point_load\<close>
  and \<open>self.udl\<close> are read from the object in the frame at the moment of the read (a
  load of the list by its index, since \<open>load\<close> is a reference into the list), and a
  call returns its value together with the object it leaves in the frame, also when
  the division raises.
\<close>

text \<open>\<open>solve_reactions\<close>: the object and the two accumulators.\<close>

record reactions_frame =
  rf_self :: SimpleBeam
  rf_sum_moment_A :: real
  rf_total_load :: real

definition reactions_body :: "nat \<Rightarrow> reactions_frame \<Rightarrow> reactions_frame" where
  "reactions_body i f =
     (let load = loads (rf_self f) ! i;
          f = f\<lparr>rf_sum_moment_A := rf_sum_moment_A f + load_P load * load_x load\<rparr>;
          f = f\<lparr>rf_total_load := rf_total_load f + load_P load\<rparr>
      in f)"

definition run_solve_reactions :: "SimpleBeam \<Rightarrow> (error + real \<times> real) \<times> SimpleBeam" where
  "run_solve_reactions self =
     (let f = \<lparr>rf_self = self, rf_sum_moment_A = 0, rf_total_load = 0\<rparr>;
          f = fold reactions_body [0..<length (loads (rf_self f))] f
      in (case truediv (rf_sum_moment_A f) (length1 (rf_self f)) of
            Inl e \<Rightarrow> Inl e
          | Inr rb \<Rightarrow> Inr (rf_total_load f - rb, rb),
          rf_self f))"

text \<open>
  \<open>calculate_internal_forces\<close>: the object, the two result lists and the locals \<open>V\<close>,
  \<open>M\<close> (unbound before the first sample, where they are assigned before they are read).
\<close>

record forces_frame =
  ff_self :: SimpleBeam
  ff_shear_forces :: "real list"
  ff_bending_moments :: "real list"
  ff_V :: real
  ff_M :: real

definition forces_inner :: "real \<Rightarrow> nat \<Rightarrow> forces_frame \<Rightarrow> forces_frame" where
  "forces_inner x j f =
     (let load = loads (ff_self f) ! j
      in if x > load_x load
         then (let f = f\<lparr>ff_V := ff_V f - load_P load\<rparr>;
                   f = f\<lparr>ff_M := ff_M f - load_P load * (x - load_x load)\<rparr>
               in f)
         else f)"

definition forces_outer :: "real \<Rightarrow> real \<Rightarrow> forces_frame \<Rightarrow> forces_frame" where
  "forces_outer ra x f =
     (let f = f\<lparr>ff_V := ra\<rparr>;
          f = f\<lparr>ff_M := ra * x\<rparr>;
          f = fold (forces_inner x) [0..<length (loads (ff_self f))] f;
          f = f\<lparr>ff_shear_forces := ff_shear_forces f @ [ff_V f]\<rparr>;
          f = f\<lparr>ff_bending_moments := ff_bending_moments f @ [ff_M f]\<rparr>
      in f)"

definition run_calculate_internal_forces ::
    "real \<Rightarrow> real \<Rightarrow> SimpleBeam \<Rightarrow> (real list \<times> real list \<times> real list) \<times> SimpleBeam" where
  "run_calculate_internal_forces ra rb self =
     (let x_coords = linspace 0 (length1 self) 500;
          f = \<lparr>ff_self = self, ff_shear_forces = [], ff_bending_moments = [],
               ff_V = 0, ff_M = 0\<rparr>;
          f = fold (forces_outer ra) x_coords f
      in ((x_coords, ff_shear_forces f, ff_bending_moments f), ff_self f))"

text \<open>\<open>solve_analysis\<close>: part A reads the object into locals, part B is the loop.\<close>

record analysis_frame =
  af_self :: BeamLevel2
  af_V_vals :: "real list"
  af_M_vals :: "real list"
  af_V :: real
  af_M :: real

definition analysis_body :: "real \<Rightarrow> real \<Rightarrow> analysis_frame \<Rightarrow> analysis_frame" where
  "analysis_body ra x f =
     (let f = f\<lparr>af_V := ra\<rparr>;
          f = f\<lparr>af_M := ra * x\<rparr>;
          f = (if x > pl_x (point_load (af_self f))
               then (let f = f\<lparr>af_V := af_V f - pl_P (point_load (af_self f))\<rparr>;
                         f = f\<lparr>af_M := af_M f
                               - pl_P (point_load (af_self f)) * (x - pl_x (point_load (af_self f)))\<rparr>
                     in f)
               else f);
          f = (if x > udl_start (udl (af_self f))
               then (let cover_len = min x (udl_end (udl (af_self f))) - udl_start (udl (af_self f))
                     in if cover_len > 0
                        then (let force_segment = udl_w (udl (af_self f)) * cover_len;
                                  moment_arm = x - (udl_start (udl (af_self f)) + cover_len / 2);
                                  f = f\<lparr>af_V := af_V f - force_segment\<rparr>;
                                  f = f\<lparr>af_M := af_M f - force_segment * moment_arm\<rparr>
                              in f)
                        else f)
               else f);
          f = f\<lparr>af_V_vals := af_V_vals f @ [af_V f]\<rparr>;
          f = f\<lparr>af_M_vals := af_M_vals f @ [af_M f]\<rparr>
      in f)"

definition run_solve_analysis ::
    "BeamLevel2 \<Rightarrow> (error + real \<times> real \<times> real list \<times> real list \<times> real list) \<times> BeamLevel2" where
  "run_solve_analysis self =
     (let L = length2 self;
          moment_from_point = pl_P (point_load self) * pl_x (point_load self);
          udl_total_force = udl_w (udl self) * (udl_end (udl self) - udl_start (udl self));
          udl_center = (udl_start (udl self) + udl_end (udl self)) / 2;
          moment_from_udl = udl_total_force * udl_center
      in case truediv (moment_from_point + moment_from_udl) L of
           Inl e \<Rightarrow> (Inl e, self)
         | Inr rb \<Rightarrow>
             (let ra = (pl_P (point_load self) + udl_total_force) - rb;
                  x_vals = linspace 0 L 500;
                  f = \<lparr>af_self = self, af_V_vals = [], af_M_vals = [], af_V = 0, af_M = 0\<rparr>;
                  f = fold (analysis_body ra) x_vals f
              in (Inr (ra, rb, x_vals, af_V_vals f, af_M_vals f), af_self f)))"


section \<open>Beams used for comparison\<close>

text \<open>
  The same \<open>BeamLevel2\<close> beam with only its point load: its UDL is the one \<open>__init__\<close>
  leaves (\<open>w = 0\<close> over \<open>[0, 0]\<close>). The same beam as a \<open>SimpleBeam\<close> of \<open>app.py\<close> with
  the one point load.
\<close>

definition point_only :: "BeamLevel2 \<Rightarrow> BeamLevel2" where
  "point_only b = b\<lparr>udl := udl (BeamLevel2_init (length2 b))\<rparr>"

definition as_simple_beam :: "BeamLevel2 \<Rightarrow> SimpleBeam" where
  "as_simple_beam b =
     add_point_load (pl_P (point_load b)) (pl_x (point_load b)) (SimpleBeam_init (length2 b))"

text \<open>The example of the specification: \<open>L = 10\<close>, \<open>P = 100\<close> at \<open>x = 5\<close>.\<close>

definition example_beam :: SimpleBeam where
  "example_beam = add_point_load 100 5 (SimpleBeam_init 10)"


section \<open>The loops in closed form\<close>

lemma sample_loop_map:
  "sample_loop body xs (vs, ms) =
     (vs @ map (\<lambda>x. fst (body x)) xs, ms @ map (\<lambda>x. snd (body x)) xs)"
  by (induction xs arbitrary: vs ms) (auto split: prod.splits)

lemma reaction_loop_sums:
  "reaction_loop ls (m, t) =
     (m + (\<Sum>l\<leftarrow>ls. load_P l * load_x l), t + (\<Sum>l\<leftarrow>ls. load_P l))"
  by (induction ls arbitrary: m t) (auto simp: algebra_simps)


lemma sum_moment_shift:
  "(\<Sum>l\<leftarrow>ls. load_P l * (load_x l - a)) =
     (\<Sum>l\<leftarrow>ls. load_P l * load_x l) - a * (\<Sum>l\<leftarrow>ls. load_P l)"
  by (induction ls) (auto simp: algebra_simps)

lemma length_linspace: "length (linspace a b n) = n"
  by (simp add: linspace_def)

lemma nth_linspace:
  "i < n \<Longrightarrow> 2 \<le> n \<Longrightarrow> linspace a b n ! i = a + real i * ((b - a) / real (n - 1))"
  by (simp add: linspace_def)

lemma solve_reactions_eq:
  "solve_reactions b =
     (if length1 b = 0 then Inl ZeroDivisionError
      else Inr ((\<Sum>l\<leftarrow>loads b. load_P l) - (\<Sum>l\<leftarrow>loads b. load_P l * load_x l) / length1 b,
                (\<Sum>l\<leftarrow>loads b. load_P l * load_x l) / length1 b))"
  by (simp add: solve_reactions_def reaction_loop_sums truediv_def)

lemma reactions2_eq:
  "reactions2 b =
     (if length2 b = 0 then Inl ZeroDivisionError
      else Inr (total_load2 b - load_moment_about2 b 0 / length2 b,
                load_moment_about2 b 0 / length2 b))"
  by (simp add: reactions2_def truediv_def total_load2_def load_moment_about2_def udl_force_def
      udl_centroid_def Let_def)

lemma solve_analysis_eq:
  "solve_analysis b =
     (case reactions2 b of
        Inl e \<Rightarrow> Inl e
      | Inr (ra, rb) \<Rightarrow>
          Inr (ra, rb, linspace 0 (length2 b) 500,
               map (\<lambda>x. fst (cut_forces2 b ra x)) (linspace 0 (length2 b) 500),
               map (\<lambda>x. snd (cut_forces2 b ra x)) (linspace 0 (length2 b) 500)))"
  by (simp add: solve_analysis_def sample_loop_map Let_def split: sum.splits prod.splits)

lemma solve_beam_eq:
  "solve_beam L P x =
     (if L = 0 then Inl ZeroDivisionError else Inr (P - P * x / L, P * x / L))"
  by (simp add: solve_beam_def truediv_def)

lemma calculate_internal_forces_eq:
  "calculate_internal_forces b ra rb =
     (linspace 0 (length1 b) 500,
      map (\<lambda>x. fst (cut_forces b ra x)) (linspace 0 (length1 b) 500),
      map (\<lambda>x. snd (cut_forces b ra x)) (linspace 0 (length1 b) 500))"
  by (simp add: calculate_internal_forces_def sample_loop_map Let_def)

lemma plot_answer_eq:
  "plot_answer L P x ra rb =
     (linspace 0 L 500,
      map (\<lambda>v. fst (cut_forces3 P x ra v)) (linspace 0 L 500),
      map (\<lambda>v. snd (cut_forces3 P x ra v)) (linspace 0 L 500))"
  by (simp add: plot_answer_def sample_loop_map Let_def)

lemma cut_udl2_degenerate:
  "udl_w (udl b) = 0 \<or> udl_start (udl b) = udl_end (udl b) \<Longrightarrow> cut_udl2 b x vm = vm"
  by (auto simp: cut_udl2_def Let_def split: prod.splits)

lemma cut_forces2_degenerate:
  "udl_w (udl b) = 0 \<or> udl_start (udl b) = udl_end (udl b) \<Longrightarrow>
   cut_forces2 b ra x = cut_point2 b x (ra, ra * x)"
  by (simp add: cut_forces2_def cut_udl2_degenerate)

lemma reactions2_degenerate:
  "udl_w (udl b) = 0 \<or> udl_start (udl b) = udl_end (udl b) \<Longrightarrow>
   reactions2 b = solve_beam (length2 b) (pl_P (point_load b)) (pl_x (point_load b))"
  by (auto simp: reactions2_def solve_beam_def Let_def split: sum.splits)

lemma cut_point2_as_cut_forces:
  "cut_point2 b x (ra, ra * x) =
     cut_forces (add_point_load (pl_P (point_load b)) (pl_x (point_load b))
        (SimpleBeam_init (length2 b))) ra x"
  by (simp add: cut_point2_def cut_forces_def add_point_load_def SimpleBeam_init_def)

lemma solve_reactions_single:
  "solve_reactions (add_point_load P x (SimpleBeam_init L)) = solve_beam L P x"
  by (simp add: solve_reactions_def solve_beam_def add_point_load_def SimpleBeam_init_def)

lemma generate_ranges:
  assumes "generate old new"
  shows "\<exists>L P x :: int.
           new = \<lparr>exam_L = of_int L, exam_P = of_int P, exam_x = of_int x, has_generated = True\<rparr>
           \<and> 5 \<le> L \<and> L \<le> 20 \<and> 10 \<le> P \<and> P \<le> 200 \<and> 1 \<le> x \<and> x \<le> L - 1"
  using assms by (cases rule: generate.cases) (auto simp: randint_def new_exam_data_def)

lemma session_span: "session cur \<Longrightarrow> 5 \<le> exam_L cur"
proof (induction rule: session.induct)
  case session_init
  show ?case by (simp add: initial_exam_data_def)
next
  case (session_new old new)
  from generate_ranges [OF session_new.hyps(2)] show ?case by auto
qed

lemma example_cut:
  "cut_forces example_beam 50 x = (if 5 < x then (- 50, 500 - 50 * x) else (50, 50 * x))"
  by (simp add: example_beam_def cut_forces_def add_point_load_def SimpleBeam_init_def)

lemma example_samples:
  "i < 500 \<Longrightarrow> linspace 0 10 500 ! i = real i * 10 / 499"
  by (simp add: nth_linspace)

lemma example_right_of_load:
  "5 < real i * 10 / 499 \<longleftrightarrow> 250 \<le> i"
proof
  assume "5 < real i * 10 / 499"
  then have "real 249 < real i" by simp
  then have "249 < i" by (simp only: of_nat_less_iff)
  then show "250 \<le> i" by simp
next
  assume "250 \<le> i"
  then have "real 250 \<le> real i" by (simp only: of_nat_le_iff)
  then show "5 < real i * 10 / 499" by simp
qed

lemma example_profile:
  "calculate_internal_forces example_beam 50 50 =
     (map (\<lambda>i. real i * 10 / 499) [0..<500],
      map (\<lambda>i. if 250 \<le> i then - 50 else 50) [0..<500],
      map (\<lambda>i. if 250 \<le> i then 500 - 50 * (real i * 10 / 499) else 50 * (real i * 10 / 499))
        [0..<500])"
proof -
  have l: "length1 example_beam = 10"
    by (simp add: example_beam_def add_point_load_def SimpleBeam_init_def)
  have x: "linspace 0 10 500 = map (\<lambda>i. real i * 10 / 499) [0..<500]"
    by (simp add: linspace_def)
  show ?thesis
    unfolding calculate_internal_forces_eq l x
    by (simp add: example_cut example_right_of_load o_def)
qed

lemma example_moment_bound:
  "(if 250 \<le> i then 500 - 50 * (real i * 10 / 499) else 50 * (real i * 10 / 499))
     \<le> 124500 / 499"
proof (cases "250 \<le> i")
  case True
  then have "real 250 \<le> real i" by (simp only: of_nat_le_iff)
  with True show ?thesis by simp
next
  case False
  then have "i \<le> 249" by simp
  then have "real i \<le> real 249" by (simp only: of_nat_le_iff)
  with False show ?thesis by simp
qed

lemma example_max_moment:
  "Max (set (snd (snd (calculate_internal_forces example_beam 50 50)))) = 124500 / 499"
proof (rule Max_eqI)
  show "finite (set (snd (snd (calculate_internal_forces example_beam 50 50))))" by simp
next
  fix y assume "y \<in> set (snd (snd (calculate_internal_forces example_beam 50 50)))"
  then have "y \<in> (\<lambda>i. if 250 \<le> i then 500 - 50 * (real i * 10 / 499)
      else 50 * (real i * 10 / 499)) ` set [0..<500]"
    unfolding example_profile by (simp only: snd_conv set_map)
  then obtain i where "y = (if 250 \<le> i then 500 - 50 * (real i * 10 / 499)
      else 50 * (real i * 10 / 499))"
    by blast
  then show "y \<le> 124500 / 499" using example_moment_bound [of i] by simp
next
  have "(249::nat) \<in> set [0..<500]" by simp
  then have "(if 250 \<le> (249::nat) then 500 - 50 * (real 249 * 10 / 499)
      else 50 * (real 249 * 10 / 499))
    \<in> (\<lambda>i. if 250 \<le> i then 500 - 50 * (real i * 10 / 499) else 50 * (real i * 10 / 499))
        ` set [0..<500]"
    by (rule imageI)
  then show "124500 / 499 \<in> set (snd (snd (calculate_internal_forces example_beam 50 50)))"
    unfolding example_profile by (simp only: snd_conv set_map) simp
qed

lemma example_cut_bound: "snd (cut_forces example_beam 50 x) \<le> 250"
  by (simp add: example_cut)


lemma reaction_loop_append:
  "reaction_loop (ls @ [l]) acc =
     (case reaction_loop ls acc of (m, t) \<Rightarrow> (m + load_P l * load_x l, t + load_P l))"
  by (induction ls acc rule: reaction_loop.induct) auto

lemma reactions_fold:
  "n \<le> length (loads b) \<Longrightarrow>
   fold reactions_body [0..<n] \<lparr>rf_self = b, rf_sum_moment_A = 0, rf_total_load = 0\<rparr> =
     \<lparr>rf_self = b, rf_sum_moment_A = fst (reaction_loop (take n (loads b)) (0, 0)),
      rf_total_load = snd (reaction_loop (take n (loads b)) (0, 0))\<rparr>"
proof (induction n)
  case 0
  show ?case by simp
next
  case (Suc n)
  then have n: "n < length (loads b)" by simp
  from Suc have IH: "fold reactions_body [0..<n]
      \<lparr>rf_self = b, rf_sum_moment_A = 0, rf_total_load = 0\<rparr> =
     \<lparr>rf_self = b, rf_sum_moment_A = fst (reaction_loop (take n (loads b)) (0, 0)),
      rf_total_load = snd (reaction_loop (take n (loads b)) (0, 0))\<rparr>"
    by simp
  have "fold reactions_body [0..<Suc n]
      \<lparr>rf_self = b, rf_sum_moment_A = 0, rf_total_load = 0\<rparr> =
    reactions_body n (fold reactions_body [0..<n]
      \<lparr>rf_self = b, rf_sum_moment_A = 0, rf_total_load = 0\<rparr>)"
    by simp
  also have "\<dots> = reactions_body n
     \<lparr>rf_self = b, rf_sum_moment_A = fst (reaction_loop (take n (loads b)) (0, 0)),
      rf_total_load = snd (reaction_loop (take n (loads b)) (0, 0))\<rparr>"
    by (simp only: IH)
  also have "\<dots> =
     \<lparr>rf_self = b, rf_sum_moment_A = fst (reaction_loop (take (Suc n) (loads b)) (0, 0)),
      rf_total_load = snd (reaction_loop (take (Suc n) (loads b)) (0, 0))\<rparr>"
    by (simp add: take_Suc_conv_app_nth [OF n] reaction_loop_append reactions_body_def
        Let_def split: prod.splits)
  finally show ?case .
qed

lemma run_solve_reactions_eq: "run_solve_reactions b = (solve_reactions b, b)"
  by (simp add: run_solve_reactions_def reactions_fold solve_reactions_def Let_def
      split: prod.splits sum.splits)

lemma cut_loop_append:
  "cut_loop x (ls @ [l]) acc =
     (case cut_loop x ls acc of (V, M) \<Rightarrow>
        if x > load_x l then (V - load_P l, M - load_P l * (x - load_x l)) else (V, M))"
  by (induction x ls acc rule: cut_loop.induct) auto

lemma forces_inner_fold:
  "n \<le> length (loads b) \<Longrightarrow>
   fold (forces_inner x) [0..<n]
     \<lparr>ff_self = b, ff_shear_forces = vs, ff_bending_moments = ms, ff_V = V, ff_M = M\<rparr> =
     \<lparr>ff_self = b, ff_shear_forces = vs, ff_bending_moments = ms,
      ff_V = fst (cut_loop x (take n (loads b)) (V, M)),
      ff_M = snd (cut_loop x (take n (loads b)) (V, M))\<rparr>"
proof (induction n)
  case 0
  show ?case by simp
next
  case (Suc n)
  then have n: "n < length (loads b)" by simp
  from Suc have IH: "fold (forces_inner x) [0..<n]
     \<lparr>ff_self = b, ff_shear_forces = vs, ff_bending_moments = ms, ff_V = V, ff_M = M\<rparr> =
     \<lparr>ff_self = b, ff_shear_forces = vs, ff_bending_moments = ms,
      ff_V = fst (cut_loop x (take n (loads b)) (V, M)),
      ff_M = snd (cut_loop x (take n (loads b)) (V, M))\<rparr>"
    by simp
  have "fold (forces_inner x) [0..<Suc n]
     \<lparr>ff_self = b, ff_shear_forces = vs, ff_bending_moments = ms, ff_V = V, ff_M = M\<rparr> =
    forces_inner x n (fold (forces_inner x) [0..<n]
     \<lparr>ff_self = b, ff_shear_forces = vs, ff_bending_moments = ms, ff_V = V, ff_M = M\<rparr>)"
    by simp
  also have "\<dots> = forces_inner x n
     \<lparr>ff_self = b, ff_shear_forces = vs, ff_bending_moments = ms,
      ff_V = fst (cut_loop x (take n (loads b)) (V, M)),
      ff_M = snd (cut_loop x (take n (loads b)) (V, M))\<rparr>"
    by (simp only: IH)
  also have "\<dots> =
     \<lparr>ff_self = b, ff_shear_forces = vs, ff_bending_moments = ms,
      ff_V = fst (cut_loop x (take (Suc n) (loads b)) (V, M)),
      ff_M = snd (cut_loop x (take (Suc n) (loads b)) (V, M))\<rparr>"
    by (simp add: take_Suc_conv_app_nth [OF n] cut_loop_append forces_inner_def
        Let_def split: prod.splits)
  finally show ?case .
qed

lemma forces_outer_eq:
  "forces_outer ra x
     \<lparr>ff_self = b, ff_shear_forces = vs, ff_bending_moments = ms, ff_V = V, ff_M = M\<rparr> =
     \<lparr>ff_self = b, ff_shear_forces = vs @ [fst (cut_forces b ra x)],
      ff_bending_moments = ms @ [snd (cut_forces b ra x)],
      ff_V = fst (cut_forces b ra x), ff_M = snd (cut_forces b ra x)\<rparr>"
  by (simp add: forces_outer_def forces_inner_fold cut_forces_def Let_def)

lemma forces_outer_fold:
  "fold (forces_outer ra) xs
     \<lparr>ff_self = b, ff_shear_forces = vs, ff_bending_moments = ms, ff_V = V, ff_M = M\<rparr> =
     \<lparr>ff_self = b, ff_shear_forces = vs @ map (\<lambda>x. fst (cut_forces b ra x)) xs,
      ff_bending_moments = ms @ map (\<lambda>x. snd (cut_forces b ra x)) xs,
      ff_V = (if xs = [] then V else fst (cut_forces b ra (last xs))),
      ff_M = (if xs = [] then M else snd (cut_forces b ra (last xs)))\<rparr>"
  by (induction xs arbitrary: vs ms V M) (simp_all add: forces_outer_eq)

lemma run_calculate_internal_forces_eq:
  "run_calculate_internal_forces ra rb b = (calculate_internal_forces b ra rb, b)"
  by (simp add: run_calculate_internal_forces_def forces_outer_fold
      calculate_internal_forces_def sample_loop_map Let_def)

lemma analysis_body_eq:
  "analysis_body ra x \<lparr>af_self = b, af_V_vals = vs, af_M_vals = ms, af_V = V, af_M = M\<rparr> =
     \<lparr>af_self = b, af_V_vals = vs @ [fst (cut_forces2 b ra x)],
      af_M_vals = ms @ [snd (cut_forces2 b ra x)],
      af_V = fst (cut_forces2 b ra x), af_M = snd (cut_forces2 b ra x)\<rparr>"
  by (simp add: analysis_body_def cut_forces2_def cut_udl2_def cut_point2_def Let_def)

lemma analysis_body_fold:
  "fold (analysis_body ra) xs
     \<lparr>af_self = b, af_V_vals = vs, af_M_vals = ms, af_V = V, af_M = M\<rparr> =
     \<lparr>af_self = b, af_V_vals = vs @ map (\<lambda>x. fst (cut_forces2 b ra x)) xs,
      af_M_vals = ms @ map (\<lambda>x. snd (cut_forces2 b ra x)) xs,
      af_V = (if xs = [] then V else fst (cut_forces2 b ra (last xs))),
      af_M = (if xs = [] then M else snd (cut_forces2 b ra (last xs)))\<rparr>"
  by (induction xs arbitrary: vs ms V M) (simp_all add: analysis_body_eq)

lemma run_solve_analysis_eq: "run_solve_analysis b = (solve_analysis b, b)"
  by (simp add: run_solve_analysis_def analysis_body_fold solve_analysis_eq reactions2_def
      Let_def split: sum.splits)


section \<open>Span length and the division\<close>

text \<open>
  C1, as the code has it. None of the three solvers checks the span. With the span
  \<open>0\<close> each raises Python's \<open>ZeroDivisionError\<close> and returns nothing. With any other
  span, a negative one included, each divides by it and returns the reactions
  \<open>Rb = (moment sum about the left support) / L\<close> and \<open>Ra = (total load) - Rb\<close>
  (\<open>solve_analysis\<close> with the profile over the samples of \<open>[0, L]\<close>). There is no
  \<open>InvalidGeometry\<close> error in the code.
\<close>

theorem solvers_fail_exactly_on_zero_span:
  "(length1 b = 0 \<longrightarrow> solve_reactions b = Inl ZeroDivisionError)
   \<and> (length1 b \<noteq> 0 \<longrightarrow>
        solve_reactions b =
          Inr (total_load b - load_moment_about b 0 / length1 b,
               load_moment_about b 0 / length1 b))
   \<and> (length2 b2 = 0 \<longrightarrow> solve_analysis b2 = Inl ZeroDivisionError)
   \<and> (length2 b2 \<noteq> 0 \<longrightarrow>
        solve_analysis b2 =
          Inr (total_load2 b2 - load_moment_about2 b2 0 / length2 b2,
               load_moment_about2 b2 0 / length2 b2,
               linspace 0 (length2 b2) 500,
               map (\<lambda>x. fst (cut_forces2 b2
                     (total_load2 b2 - load_moment_about2 b2 0 / length2 b2) x))
                 (linspace 0 (length2 b2) 500),
               map (\<lambda>x. snd (cut_forces2 b2
                     (total_load2 b2 - load_moment_about2 b2 0 / length2 b2) x))
                 (linspace 0 (length2 b2) 500)))
   \<and> (L = 0 \<longrightarrow> solve_beam L P x = Inl ZeroDivisionError)
   \<and> (L \<noteq> 0 \<longrightarrow> solve_beam L P x = Inr (P - P * x / L, P * x / L))"
  by (simp add: solve_reactions_eq solve_analysis_eq reactions2_eq solve_beam_eq
      total_load_def load_moment_about_def)

theorem solvers_fail_exactly_on_zero_span_witness:
  "solve_beam 0 4 1 = Inl ZeroDivisionError
   \<and> solve_reactions (add_point_load 4 1 (SimpleBeam_init 0)) = Inl ZeroDivisionError
   \<and> solve_analysis (set_loads 4 1 0 0 0 (BeamLevel2_init 0)) = Inl ZeroDivisionError
   \<and> solve_beam (-2) 4 1 = Inr (6, -2)
   \<and> solve_reactions (add_point_load 4 1 (SimpleBeam_init (-2))) = Inr (6, -2)
   \<and> (\<exists>xs Vs Ms. solve_analysis (set_loads 4 1 0 0 0 (BeamLevel2_init (-2)))
         = Inr (6, -2, xs, Vs, Ms))"
  using solvers_fail_exactly_on_zero_span
    [of "add_point_load 4 1 (SimpleBeam_init (-2))" "set_loads 4 1 0 0 0 (BeamLevel2_init (-2))"
      "-2" 4 1]
    solvers_fail_exactly_on_zero_span
    [of "add_point_load 4 1 (SimpleBeam_init 0)" "set_loads 4 1 0 0 0 (BeamLevel2_init 0)" 0 4 1]
  by (simp add: add_point_load_def SimpleBeam_init_def set_loads_def BeamLevel2_init_def
      total_load_def load_moment_about_def total_load2_def load_moment_about2_def
      udl_force_def udl_centroid_def)

text \<open>
  C1 as stated fails: with the span \<open>-2\<close> and the load \<open>P = 4\<close> at \<open>x = 1\<close> every solver
  returns the reactions \<open>(6, -2)\<close> instead of an error.
\<close>

theorem negative_span_returns_reactions:
  "solve_reactions (add_point_load 4 1 (SimpleBeam_init (-2))) = Inr (6, -2)
   \<and> solve_beam (-2) 4 1 = Inr (6, -2)
   \<and> reactions2 (set_loads 4 1 0 0 0 (BeamLevel2_init (-2))) = Inr (6, -2)"
  by (simp add: solve_reactions_def solve_beam_def reactions2_def truediv_def
      add_point_load_def SimpleBeam_init_def set_loads_def BeamLevel2_init_def)


section \<open>Equilibrium\<close>

text \<open>
  C2: for a positive span the reactions balance the loads: \<open>Ra + Rb\<close> is the total load,
  and about every point \<open>a\<close> the moments of \<open>Ra\<close> (at \<open>0\<close>), \<open>Rb\<close> (at \<open>L\<close>) and the
  loads sum to zero. It holds for the list of point loads of \<open>SimpleBeam\<close> and for the
  point load with a UDL of \<open>BeamLevel2\<close>, exactly over the reals.
\<close>

theorem reactions_in_equilibrium:
  assumes "0 < length1 b" and "0 < length2 b2"
  shows "(\<exists>ra rb. solve_reactions b = Inr (ra, rb)
            \<and> ra + rb = total_load b
            \<and> (\<forall>a. ra * (0 - a) + rb * (length1 b - a) - load_moment_about b a = 0))
       \<and> (\<exists>ra rb xs Vs Ms. solve_analysis b2 = Inr (ra, rb, xs, Vs, Ms)
            \<and> ra + rb = total_load2 b2
            \<and> (\<forall>a. ra * (0 - a) + rb * (length2 b2 - a) - load_moment_about2 b2 a = 0))"
proof
  from assms(1) have L: "length1 b \<noteq> 0" by simp
  show "\<exists>ra rb. solve_reactions b = Inr (ra, rb) \<and> ra + rb = total_load b
          \<and> (\<forall>a. ra * (0 - a) + rb * (length1 b - a) - load_moment_about b a = 0)"
    using L by (simp add: solve_reactions_eq total_load_def load_moment_about_def
        sum_moment_shift) (simp add: field_simps)
next
  from assms(2) have L: "length2 b2 \<noteq> 0" by simp
  show "\<exists>ra rb xs Vs Ms. solve_analysis b2 = Inr (ra, rb, xs, Vs, Ms)
          \<and> ra + rb = total_load2 b2
          \<and> (\<forall>a. ra * (0 - a) + rb * (length2 b2 - a) - load_moment_about2 b2 a = 0)"
    using L by (simp add: solve_analysis_eq reactions2_eq load_moment_about2_def)
      (simp add: field_simps total_load2_def)
qed

theorem reactions_in_equilibrium_witness:
  "0 < length1 (add_point_load 100 5 (SimpleBeam_init 10))
   \<and> 0 < length2 (set_loads 50 5 10 0 10 (BeamLevel2_init 10))
   \<and> solve_reactions (add_point_load 100 5 (SimpleBeam_init 10)) = Inr (50, 50)
   \<and> total_load (add_point_load 100 5 (SimpleBeam_init 10)) = 50 + 50
   \<and> (\<exists>ra rb xs Vs Ms.
         solve_analysis (set_loads 50 5 10 0 10 (BeamLevel2_init 10)) = Inr (ra, rb, xs, Vs, Ms)
         \<and> ra + rb = total_load2 (set_loads 50 5 10 0 10 (BeamLevel2_init 10))
         \<and> (\<forall>a. ra * (0 - a) + rb * (length2 (set_loads 50 5 10 0 10 (BeamLevel2_init 10)) - a)
                - load_moment_about2 (set_loads 50 5 10 0 10 (BeamLevel2_init 10)) a = 0))"
proof -
  have h1: "0 < length1 (add_point_load 100 5 (SimpleBeam_init 10))"
    by (simp add: add_point_load_def SimpleBeam_init_def)
  have h2: "0 < length2 (set_loads 50 5 10 0 10 (BeamLevel2_init 10))"
    by (simp add: set_loads_def BeamLevel2_init_def)
  have r: "solve_reactions (add_point_load 100 5 (SimpleBeam_init 10)) = Inr (50, 50)"
    by (simp add: solve_reactions_def truediv_def add_point_load_def SimpleBeam_init_def)
  have t: "total_load (add_point_load 100 5 (SimpleBeam_init 10)) = 50 + 50"
    by (simp add: total_load_def add_point_load_def SimpleBeam_init_def)
  from reactions_in_equilibrium [OF h1 h2] h1 h2 r t show ?thesis by blast
qed


section \<open>Judging a submitted answer\<close>

text \<open>
  C3: for every quiz problem (every reachable session state) the solver returns the
  true reactions, and each submitted value is judged on its own against its true
  value: a value within \<open>0.1\<close> of it passes, a value \<open>0.1001\<close> or more off fails (the
  judgement is the comparison of the distance with the double \<open>0.1\<close>), and the answer
  is accepted exactly when both values pass.
\<close>

theorem quiz_judged_within_tolerance:
  assumes "session cur"
  shows "\<exists>true_ra true_rb is_correct_ra is_correct_rb.
           solve_beam (exam_L cur) (exam_P cur) (exam_x cur) = Inr (true_ra, true_rb)
           \<and> submit cur user_ra user_rb = Inr (is_correct_ra, is_correct_rb)
           \<and> (\<bar>user_ra - true_ra\<bar> \<le> 0.1 \<longrightarrow> is_correct_ra)
           \<and> (0.1001 \<le> \<bar>user_ra - true_ra\<bar> \<longrightarrow> \<not> is_correct_ra)
           \<and> (\<bar>user_rb - true_rb\<bar> \<le> 0.1 \<longrightarrow> is_correct_rb)
           \<and> (0.1001 \<le> \<bar>user_rb - true_rb\<bar> \<longrightarrow> \<not> is_correct_rb)
           \<and> (is_correct_ra \<longleftrightarrow> \<bar>user_ra - true_ra\<bar> < tolerance)
           \<and> (is_correct_rb \<longleftrightarrow> \<bar>user_rb - true_rb\<bar> < tolerance)
           \<and> (accepted (is_correct_ra, is_correct_rb) \<longleftrightarrow> is_correct_ra \<and> is_correct_rb)"
proof -
  from session_span [OF assms] have "exam_L cur \<noteq> 0" by simp
  then show ?thesis
    by (simp add: solve_beam_eq submit_def is_correct_def accepted_def tolerance_def)
qed

theorem quiz_judged_within_tolerance_witness:
  "session initial_exam_data
   \<and> solve_beam (exam_L initial_exam_data) (exam_P initial_exam_data) (exam_x initial_exam_data)
       = Inr (50, 50)
   \<and> submit initial_exam_data (50 + 1 / 16) (50 - 1 / 16) = Inr (True, True)
   \<and> submit initial_exam_data (50 + 1 / 8) 50 = Inr (False, True)"
proof -
  have s: "session initial_exam_data" by (rule session.intros)
  have t: "solve_beam (exam_L initial_exam_data) (exam_P initial_exam_data)
      (exam_x initial_exam_data) = Inr (50, 50)"
    by (simp add: solve_beam_eq initial_exam_data_def)
  from quiz_judged_within_tolerance [OF s, of "50 + 1 / 16" "50 - 1 / 16"] t
  have a: "submit initial_exam_data (50 + 1 / 16) (50 - 1 / 16) = Inr (True, True)" by auto
  from quiz_judged_within_tolerance [OF s, of "50 + 1 / 8" "50"] t
  have b: "submit initial_exam_data (50 + 1 / 8) 50 = Inr (False, True)" by auto
  from s t a b show ?thesis by simp
qed


section \<open>The method of sections\<close>



section \<open>The UDL in the reactions\<close>

text \<open>
  C5: for a UDL \<open>(w, s, e)\<close> with \<open>0 \<le> s \<le> e \<le> L\<close> and \<open>L > 0\<close>, \<open>solve_analysis\<close>
  returns the reactions of the specification: the UDL counts as the force
  \<open>F = w * (e - s)\<close> at the centroid \<open>c = (s + e) / 2\<close>, \<open>Rb\<close> is the sum of the load
  moments about the left support divided by \<open>L\<close>, and \<open>Ra\<close> is the sum of the load
  magnitudes minus \<open>Rb\<close>.
\<close>

theorem udl_as_force_at_centroid:
  assumes "0 \<le> udl_start (udl b)" and "udl_start (udl b) \<le> udl_end (udl b)"
    and "udl_end (udl b) \<le> length2 b" and "0 < length2 b"
  shows "\<exists>xs Vs Ms. solve_analysis b =
           Inr ((pl_P (point_load b) + udl_force (udl b))
                  - (pl_P (point_load b) * pl_x (point_load b)
                     + udl_force (udl b) * udl_centroid (udl b)) / length2 b,
                (pl_P (point_load b) * pl_x (point_load b)
                   + udl_force (udl b) * udl_centroid (udl b)) / length2 b,
                xs, Vs, Ms)"
  using assms(4)
  by (simp add: solve_analysis_eq reactions2_eq total_load2_def load_moment_about2_def)

theorem udl_as_force_at_centroid_witness:
  "udl_force (udl (set_loads 50 5 10 2 8 (BeamLevel2_init 10))) = 60
   \<and> udl_centroid (udl (set_loads 50 5 10 2 8 (BeamLevel2_init 10))) = 5
   \<and> (\<exists>xs Vs Ms. solve_analysis (set_loads 50 5 10 2 8 (BeamLevel2_init 10))
         = Inr (55, 55, xs, Vs, Ms))"
  using udl_as_force_at_centroid [of "set_loads 50 5 10 2 8 (BeamLevel2_init 10)"]
  by (simp add: set_loads_def BeamLevel2_init_def udl_force_def udl_centroid_def)


section \<open>A degenerate UDL in exact arithmetic\<close>

text \<open>
  When \<open>w = 0\<close> or \<open>start = end\<close>, \<open>solve_analysis\<close> returns in exact arithmetic what
  it returns for the same beam with only its point load, reactions and profile alike,
  and these are the reactions and the profile \<open>app.py\<close> computes for that point load;
  the only failure is the division by a span of \<open>0\<close>, with or without the UDL. This is
  the part of C6 that exact arithmetic can state. Whether a NaN arises is a question
  of IEEE doubles (an overflow to infinity, then \<open>0 * inf\<close> or \<open>inf - inf\<close>), which
  are not modelled.
\<close>

theorem degenerate_udl_is_point_load_case:
  assumes "udl_w (udl b) = 0 \<or> udl_start (udl b) = udl_end (udl b)"
  shows "solve_analysis b = solve_analysis (point_only b)
    \<and> (solve_analysis b = Inl ZeroDivisionError \<longleftrightarrow> length2 b = 0)
    \<and> (length2 b \<noteq> 0 \<longrightarrow>
         (\<exists>ra rb xs Vs Ms. solve_analysis b = Inr (ra, rb, xs, Vs, Ms)
            \<and> solve_reactions (as_simple_beam b) = Inr (ra, rb)
            \<and> calculate_internal_forces (as_simple_beam b) ra rb = (xs, Vs, Ms)))"
proof -
  have d: "udl_w (udl (point_only b)) = 0 \<or> udl_start (udl (point_only b)) = udl_end (udl (point_only b))"
    by (simp add: point_only_def BeamLevel2_init_def)
  have same: "length2 (point_only b) = length2 b" "point_load (point_only b) = point_load b"
    by (simp_all add: point_only_def)
  have r: "reactions2 (point_only b) = reactions2 b"
    by (simp add: reactions2_degenerate [OF assms] reactions2_degenerate [OF d] same)
  have c: "cut_forces2 (point_only b) ra x = cut_forces2 b ra x" for ra x
    by (simp add: cut_forces2_degenerate [OF assms] cut_forces2_degenerate [OF d]
        cut_point2_def same)
  have 1: "solve_analysis b = solve_analysis (point_only b)"
    by (simp add: solve_analysis_eq r c same split: sum.splits)
  have 2: "solve_analysis b = Inl ZeroDivisionError \<longleftrightarrow> length2 b = 0"
    by (simp add: solve_analysis_eq reactions2_eq)
  have 3: "length2 b \<noteq> 0 \<longrightarrow>
         (\<exists>ra rb xs Vs Ms. solve_analysis b = Inr (ra, rb, xs, Vs, Ms)
            \<and> solve_reactions (as_simple_beam b) = Inr (ra, rb)
            \<and> calculate_internal_forces (as_simple_beam b) ra rb = (xs, Vs, Ms))"
    by (simp add: solve_analysis_eq reactions2_degenerate [OF assms] as_simple_beam_def
        solve_reactions_single solve_beam_eq calculate_internal_forces_eq
        cut_forces2_degenerate [OF assms] cut_point2_as_cut_forces)
      (simp add: add_point_load_def SimpleBeam_init_def)
  from 1 2 3 show ?thesis by blast
qed

theorem degenerate_udl_is_point_load_case_witness:
  "solve_analysis (set_loads 50 5 0 2 8 (BeamLevel2_init 10))
     = solve_analysis (set_loads 50 5 0 0 0 (BeamLevel2_init 10))
   \<and> solve_analysis (set_loads 50 5 10 3 3 (BeamLevel2_init 10))
     = solve_analysis (set_loads 50 5 0 0 0 (BeamLevel2_init 10))
   \<and> (\<exists>xs Vs Ms. solve_analysis (set_loads 50 5 10 3 3 (BeamLevel2_init 10))
         = Inr (25, 25, xs, Vs, Ms))"
proof -
  let ?a = "set_loads 50 5 0 2 8 (BeamLevel2_init 10)"
  let ?b = "set_loads 50 5 10 3 3 (BeamLevel2_init 10)"
  have ha: "udl_w (udl ?a) = 0 \<or> udl_start (udl ?a) = udl_end (udl ?a)"
    by (simp add: set_loads_def)
  have hb: "udl_w (udl ?b) = 0 \<or> udl_start (udl ?b) = udl_end (udl ?b)"
    by (simp add: set_loads_def)
  have pa: "point_only ?a = set_loads 50 5 0 0 0 (BeamLevel2_init 10)"
    and pb: "point_only ?b = set_loads 50 5 0 0 0 (BeamLevel2_init 10)"
    by (simp_all add: point_only_def set_loads_def BeamLevel2_init_def)
  have len: "length2 ?b \<noteq> 0"
    by (simp add: set_loads_def BeamLevel2_init_def)
  have sb: "solve_reactions (as_simple_beam ?b) = Inr (25, 25)"
    by (simp add: as_simple_beam_def solve_reactions_single solve_beam_eq set_loads_def
        BeamLevel2_init_def)
  from degenerate_udl_is_point_load_case [OF hb] len
  obtain ra rb xs Vs Ms where e: "solve_analysis ?b = Inr (ra, rb, xs, Vs, Ms)"
    and r: "solve_reactions (as_simple_beam ?b) = Inr (ra, rb)"
    by blast
  from r sb have "ra = 25" and "rb = 25" by simp_all
  with e have "\<exists>xs Vs Ms. solve_analysis ?b = Inr (25, 25, xs, Vs, Ms)"
    by blast
  with degenerate_udl_is_point_load_case [OF ha] degenerate_udl_is_point_load_case [OF hb] pa pb
  show ?thesis by simp
qed


section \<open>The single point load example\<close>

text \<open>
  C7, as the code has it. For \<open>L = 10\<close>, \<open>P = 100\<close>, \<open>x = 5\<close> the reactions are \<open>50\<close>
  and \<open>50\<close>. The 500 samples are \<open>10 * i / 499\<close>: none is \<open>5\<close>; the shear is \<open>50\<close> at
  every sample left of \<open>5\<close> (the last is sample 249) and \<open>-50\<close> at every sample right of
  it (the first is sample 250). The largest bending moment of the profile is
  \<open>124500 / 499\<close> (about \<open>249.499\<close>), at the samples 249 and 250. The value \<open>250\<close> is
  what the section formula gives at the cut \<open>x = 5\<close>, and no cut gives more.
\<close>

theorem single_load_example:
  "solve_reactions example_beam = Inr (50, 50)
   \<and> solve_beam 10 100 5 = Inr (50, 50)
   \<and> plot_answer 10 100 5 50 50 = calculate_internal_forces example_beam 50 50
   \<and> (\<exists>xs Vs Ms. calculate_internal_forces example_beam 50 50 = (xs, Vs, Ms)
        \<and> length xs = 500 \<and> length Vs = 500 \<and> length Ms = 500
        \<and> (\<forall>i<500. xs ! i = real i * 10 / 499)
        \<and> (\<forall>i<500. xs ! i < 5 \<longrightarrow> Vs ! i = 50)
        \<and> (\<forall>i<500. 5 < xs ! i \<longrightarrow> Vs ! i = - 50)
        \<and> xs ! 249 < 5 \<and> 5 < xs ! 250 \<and> Vs ! 249 = 50 \<and> Vs ! 250 = - 50
        \<and> Ms ! 249 = 124500 / 499 \<and> Ms ! 250 = 124500 / 499
        \<and> Max (set Ms) = 124500 / 499)
   \<and> cut_forces example_beam 50 5 = (50, 250)
   \<and> (\<forall>x. snd (cut_forces example_beam 50 x) \<le> 250)"
proof -
  have a: "solve_reactions example_beam = Inr (50, 50)"
    by (simp add: example_beam_def solve_reactions_single solve_beam_eq)
  have b: "solve_beam 10 100 5 = Inr (50, 50)"
    by (simp add: solve_beam_eq)
  have c: "plot_answer 10 100 5 50 50 = calculate_internal_forces example_beam 50 50"
    by (simp add: plot_answer_eq calculate_internal_forces_eq example_cut cut_forces3_def
        example_beam_def add_point_load_def SimpleBeam_init_def cut_forces_def)
  let ?xs = "map (\<lambda>i. real i * 10 / 499) [0..<500]"
  let ?Vs = "map (\<lambda>i::nat. if 250 \<le> i then - 50 else (50::real)) [0..<500]"
  let ?Ms = "map (\<lambda>i. if 250 \<le> i then 500 - 50 * (real i * 10 / 499)
      else 50 * (real i * 10 / 499)) [0..<500]"
  have d1: "\<forall>i<500. ?xs ! i = real i * 10 / 499" by simp
  have d2: "\<forall>i<500. ?xs ! i < 5 \<longrightarrow> ?Vs ! i = 50"
    using example_right_of_load by (auto simp: not_le)
  have d3: "\<forall>i<500. 5 < ?xs ! i \<longrightarrow> ?Vs ! i = - 50"
    using example_right_of_load by auto
  have d4: "?xs ! 249 < 5 \<and> 5 < ?xs ! 250 \<and> ?Vs ! 249 = 50 \<and> ?Vs ! 250 = - 50
      \<and> ?Ms ! 249 = 124500 / 499 \<and> ?Ms ! 250 = 124500 / 499"
    by simp
  have d5: "Max (set ?Ms) = 124500 / 499"
    using example_max_moment unfolding example_profile by simp
  have d: "\<exists>xs Vs Ms. calculate_internal_forces example_beam 50 50 = (xs, Vs, Ms)
        \<and> length xs = 500 \<and> length Vs = 500 \<and> length Ms = 500
        \<and> (\<forall>i<500. xs ! i = real i * 10 / 499)
        \<and> (\<forall>i<500. xs ! i < 5 \<longrightarrow> Vs ! i = 50)
        \<and> (\<forall>i<500. 5 < xs ! i \<longrightarrow> Vs ! i = - 50)
        \<and> xs ! 249 < 5 \<and> 5 < xs ! 250 \<and> Vs ! 249 = 50 \<and> Vs ! 250 = - 50
        \<and> Ms ! 249 = 124500 / 499 \<and> Ms ! 250 = 124500 / 499
        \<and> Max (set Ms) = 124500 / 499"
    unfolding example_profile using d1 d2 d3 d4 d5
    by (intro exI conjI) (rule refl, simp_all)
  have e: "cut_forces example_beam 50 5 = (50, 250)"
    by (simp add: example_cut)
  from a b c d e example_cut_bound show ?thesis by blast
qed

theorem single_load_example_witness:
  "solve_reactions example_beam = Inr (50, 50)
   \<and> cut_forces example_beam 50 5 = (50, 250)
   \<and> snd (cut_forces example_beam 50 (real 249 * 10 / 499)) \<le> 250
   \<and> (\<exists>xs Vs Ms. calculate_internal_forces example_beam 50 50 = (xs, Vs, Ms)
        \<and> xs ! 249 < 5 \<and> 5 < xs ! 250 \<and> Vs ! 249 = 50 \<and> Vs ! 250 = - 50
        \<and> Max (set Ms) = 124500 / 499)"
  using single_load_example by blast

text \<open>
  C7 as stated fails for the profile the code returns: its maximum moment is below
  \<open>250\<close>, and \<open>x = 5\<close> is not among its positions.
\<close>

theorem profile_maximum_below_250:
  "Max (set (snd (snd (calculate_internal_forces
      (add_point_load 100 5 (SimpleBeam_init 10)) 50 50)))) < 250
   \<and> 5 \<notin> set (fst (calculate_internal_forces (add_point_load 100 5 (SimpleBeam_init 10)) 50 50))"
proof -
  have "5 \<notin> set (fst (calculate_internal_forces example_beam 50 50))"
  proof
    assume "5 \<in> set (fst (calculate_internal_forces example_beam 50 50))"
    then have "5 \<in> (\<lambda>i. real i * 10 / 499) ` set [0..<500]"
      unfolding example_profile by (simp only: fst_conv set_map)
    then obtain i :: nat where "5 = real i * 10 / 499"
      by blast
    then have "real (2 * i) = real 499" by simp
    then have "2 * i = 499" by (simp only: of_nat_eq_iff)
    then show False by presburger
  qed
  then show ?thesis
    using example_max_moment by (simp add: example_beam_def)
qed


section \<open>Generated quiz problems\<close>

text \<open>
  C8: every problem the generator stores has integer values with \<open>L\<close> in \<open>[5, 20]\<close>,
  \<open>P\<close> in \<open>[10, 200]\<close> and \<open>x\<close> in \<open>[1, L - 1]\<close>, so the load is strictly between the
  supports. The new problem replaces the old one as a whole: all four entries are
  set, and the same problems can follow any prior state.
\<close>

theorem generated_problem_in_range:
  assumes "generate old new"
  shows "(\<exists>L P x :: int.
           new = \<lparr>exam_L = of_int L, exam_P = of_int P, exam_x = of_int x, has_generated = True\<rparr>
           \<and> 5 \<le> L \<and> L \<le> 20 \<and> 10 \<le> P \<and> P \<le> 200 \<and> 1 \<le> x \<and> x \<le> L - 1)
       \<and> 0 < exam_x new \<and> exam_x new < exam_L new
       \<and> generate old' new"
proof -
  from generate_ranges [OF assms] obtain L P x :: int where
    n: "new = \<lparr>exam_L = of_int L, exam_P = of_int P, exam_x = of_int x, has_generated = True\<rparr>"
    and r: "5 \<le> L" "L \<le> 20" "10 \<le> P" "P \<le> 200" "1 \<le> x" "x \<le> L - 1"
    by blast
  have s: "0 < exam_x new \<and> exam_x new < exam_L new"
    using n r by simp
  have g: "generate old' new"
    using assms by (cases rule: generate.cases) (auto intro: generate.intros)
  from n r s g show ?thesis by blast
qed

theorem generated_problem_in_range_witness:
  "generate initial_exam_data (new_exam_data 12 150 7)
   \<and> exam_L (new_exam_data 12 150 7) = 12 \<and> exam_P (new_exam_data 12 150 7) = 150
   \<and> exam_x (new_exam_data 12 150 7) = 7
   \<and> 0 < exam_x (new_exam_data 12 150 7)
   \<and> exam_x (new_exam_data 12 150 7) < exam_L (new_exam_data 12 150 7)
   \<and> generate (new_exam_data 5 10 4) (new_exam_data 12 150 7)"
proof -
  have g: "generate initial_exam_data (new_exam_data 12 150 7)"
    by (rule generate.intros) (simp_all add: randint_def)
  from generated_problem_in_range [OF g, of "new_exam_data 5 10 4"] g
  show ?thesis by (simp add: new_exam_data_def)
qed


section \<open>Solving does not change the beam\<close>

text \<open>
  C9: run statement by statement on the frame, a call of \<open>solve_reactions\<close>,
  \<open>calculate_internal_forces\<close> or \<open>solve_analysis\<close> leaves the object it was called on,
  span and loads alike, and returns the value of the function of the beam (and of
  \<open>ra\<close>) that the other sections reason about; so a second call on the object the
  first one leaves returns what the first returned.
\<close>

theorem solving_leaves_beam_unchanged:
  "run_solve_reactions b = (solve_reactions b, b)
   \<and> run_calculate_internal_forces ra rb b = (calculate_internal_forces b ra rb, b)
   \<and> run_solve_analysis b2 = (solve_analysis b2, b2)
   \<and> length1 (snd (run_solve_reactions b)) = length1 b
   \<and> loads (snd (run_solve_reactions b)) = loads b
   \<and> length1 (snd (run_calculate_internal_forces ra rb b)) = length1 b
   \<and> loads (snd (run_calculate_internal_forces ra rb b)) = loads b
   \<and> length2 (snd (run_solve_analysis b2)) = length2 b2
   \<and> point_load (snd (run_solve_analysis b2)) = point_load b2
   \<and> udl (snd (run_solve_analysis b2)) = udl b2
   \<and> fst (run_solve_reactions (snd (run_solve_reactions b))) = fst (run_solve_reactions b)
   \<and> fst (run_calculate_internal_forces ra rb (snd (run_calculate_internal_forces ra rb b)))
       = fst (run_calculate_internal_forces ra rb b)
   \<and> fst (run_solve_analysis (snd (run_solve_analysis b2))) = fst (run_solve_analysis b2)"
  by (simp add: run_solve_reactions_eq run_calculate_internal_forces_eq run_solve_analysis_eq)

theorem solving_leaves_beam_unchanged_witness:
  "run_solve_reactions (add_point_load 100 5 (SimpleBeam_init 10))
     = (Inr (50, 50), add_point_load 100 5 (SimpleBeam_init 10))
   \<and> run_solve_reactions (add_point_load 100 5 (SimpleBeam_init 0))
     = (Inl ZeroDivisionError, add_point_load 100 5 (SimpleBeam_init 0))
   \<and> snd (run_calculate_internal_forces 50 50 (add_point_load 100 5 (SimpleBeam_init 10)))
     = add_point_load 100 5 (SimpleBeam_init 10)
   \<and> snd (run_solve_analysis (set_loads 50 5 10 0 10 (BeamLevel2_init 10)))
     = set_loads 50 5 10 0 10 (BeamLevel2_init 10)"
  using solving_leaves_beam_unchanged
    [of "add_point_load 100 5 (SimpleBeam_init 10)" 50 50
      "set_loads 50 5 10 0 10 (BeamLevel2_init 10)"]
    solving_leaves_beam_unchanged [of "add_point_load 100 5 (SimpleBeam_init 0)"]
  by (simp add: solve_reactions_single solve_beam_eq)


section \<open>Setting the loads\<close>

text \<open>
  C10: a \<open>BeamLevel2\<close> has one point-load dict and one UDL dict (the two fields of
  the record), and \<open>set_loads\<close> overwrites both and leaves the span: after two calls
  the beam is what the second call alone makes of it, and \<open>solve_analysis\<close> returns
  what it returns for a fresh beam of that span with the loads of the second call.
\<close>

theorem set_loads_overwrites:
  "set_loads P' x' w' s' e' (set_loads P x w s e b) = set_loads P' x' w' s' e' b
   \<and> point_load (set_loads P x w s e b) = \<lparr>pl_P = P, pl_x = x\<rparr>
   \<and> udl (set_loads P x w s e b) = \<lparr>udl_w = w, udl_start = s, udl_end = e\<rparr>
   \<and> length2 (set_loads P x w s e b) = length2 b
   \<and> solve_analysis (set_loads P' x' w' s' e' (set_loads P x w s e b))
       = solve_analysis (set_loads P' x' w' s' e' (BeamLevel2_init (length2 b)))"
  by (cases b) (simp add: set_loads_def BeamLevel2_init_def)

theorem set_loads_overwrites_witness:
  "point_load (set_loads 50 5 10 0 10 (set_loads 70 2 3 1 4 (BeamLevel2_init 10)))
     = \<lparr>pl_P = 50, pl_x = 5\<rparr>
   \<and> udl (set_loads 50 5 10 0 10 (set_loads 70 2 3 1 4 (BeamLevel2_init 10)))
     = \<lparr>udl_w = 10, udl_start = 0, udl_end = 10\<rparr>
   \<and> solve_analysis (set_loads 50 5 10 0 10 (set_loads 70 2 3 1 4 (BeamLevel2_init 10)))
     = solve_analysis (set_loads 50 5 10 0 10 (BeamLevel2_init 10))"
  using set_loads_overwrites [of 50 5 10 0 10 70 2 3 1 4 "BeamLevel2_init 10"]
    set_loads_overwrites [of _ _ _ _ _ 50 5 10 0 10 "set_loads 70 2 3 1 4 (BeamLevel2_init 10)"]
  by (simp add: BeamLevel2_init_def)

end
